theory Spec2Isabelle
  imports Complex_Main
begin

section \<open>Data model of the RAG server (main.py, embedding\_service.py)\<close>

text \<open>
  Python floats are modelled as \<^typ>\<open>real\<close>, Python strings as \<^typ>\<open>string\<close>, a
  timestamp as an integer number of clock ticks. A metadata document is a Python
  \<open>dict\<close> of JSON values; \<open>json.dumps\<close>, the \<open>jsonb\<close> column and the driver's
  decoding are taken together as the identity on documents.
\<close>

type_synonym vector = "real list"
type_synonym timestamp = int

datatype json =
    JNull
  | JBool bool
  | JNumber real
  | JString string
  | JArray "json list"
  | JObject "(string \<times> json) list"

type_synonym dict = "(string \<times> json) list"

text \<open>One row of the table \<open>embedding_store\<close>; \<open>'i\<close> is the type of its id column.\<close>

record 'i row =
  row_id :: 'i
  user_id :: string
  content :: string
  embedding :: vector
  source :: "string option"
  metadata :: "dict option"
  created :: timestamp

text \<open>The pydantic models.\<close>

record AddContentRequest =
  acr_user_id :: string
  acr_content :: string
  acr_source :: "string option"
  acr_metadata :: "dict option"

record ContentResponse =
  cr_id :: string
  cr_user_id :: string
  cr_content :: string
  cr_source :: "string option"
  cr_metadata :: "dict option"
  cr_created :: string

record SearchRequest =
  sr_query :: string
  sr_limit :: "int option"
  sr_user_id :: "string option"
  sr_source :: "string option"
  sr_distance_threshold :: "real option"
  sr_created_after :: "string option"
  sr_created_before :: "string option"

record SearchResult =
  res_id :: string
  res_user_id :: string
  res_content :: string
  res_source :: "string option"
  res_metadata :: "dict option"
  res_distance :: real
  res_created :: string

record DeleteResponse =
  del_message :: string
  del_id :: string

record HealthResponse =
  status :: string
  database :: string

text \<open>
  What a handler raises: \<open>HTTPException(status_code, detail)\<close>, or the framework's
  rejection of a request body that fails the pydantic constraints.
\<close>

datatype failure =
    HTTPException nat string
  | RequestValidationError

text \<open>
  Everything outside the two source files is a parameter of the model: the embedding
  model (its construction may raise, and so may \<open>encode\<close>), the database driver
  (\<open>connect\<close> and \<open>execute\<close> may raise), the operator \<open><=>\<close> of the vector
  extension, the casts of request texts to the column types, the column defaults of
  an insert, and the configured default threshold.
\<close>

record 'i env =
  load_model :: "string option"
  model_encode :: "string \<Rightarrow> string + vector"
  db_connect_error :: "string option"
  db_execute_error :: "string option"
  distance_op :: "vector \<Rightarrow> vector \<Rightarrow> real"
  timestamptz_in :: "string \<Rightarrow> string + timestamp"
  id_in :: "string \<Rightarrow> string + 'i"
  id_str :: "'i \<Rightarrow> string"
  isoformat :: "timestamp \<Rightarrow> string"
  default_id :: 'i
  now :: timestamp
  DEFAULT_DISTANCE_THRESHOLD :: real

text \<open>
  The mutable state: the module-level singleton \<open>_embedding_service\<close> (is it set?)
  and the committed contents of the table.
\<close>

record 'i state =
  embedding_service :: bool
  embedding_store :: "'i row list"

section \<open>embedding\_service.py\<close>

definition get_embedding_service :: "'i env \<Rightarrow> 'i state \<Rightarrow> string + 'i state" where
  "get_embedding_service env st =
     (if \<not> embedding_service st then
        (case load_model env of
           Some e \<Rightarrow> Inl e
         | None \<Rightarrow> Inr (st\<lparr>embedding_service := True\<rparr>))
      else Inr st)"

definition encode :: "'i env \<Rightarrow> string \<Rightarrow> string + vector" where
  "encode env text = model_encode env text"

section \<open>main.py\<close>

text \<open>Python truthiness of an optional string and of an optional dict.\<close>

fun truthy_str :: "string option \<Rightarrow> bool" where
  "truthy_str None = False"
| "truthy_str (Some s) = (s \<noteq> [])"

fun truthy_dict :: "dict option \<Rightarrow> bool" where
  "truthy_dict None = False"
| "truthy_dict (Some d) = (d \<noteq> [])"

text \<open>The \<open>except Exception as e\<close> arm shared by the three handlers.\<close>

definition database_error :: "string \<Rightarrow> failure" where
  "database_error e = HTTPException 500 (''Database error: '' @ e)"

subsection \<open>health\_check\<close>

definition health_check :: "'i env \<Rightarrow> 'i state \<Rightarrow> HealthResponse \<times> 'i state" where
  "health_check env st =
     (case db_connect_error env of
        Some e \<Rightarrow> (\<lparr>status = ''unhealthy'', database = ''error: '' @ e\<rparr>, st)
      | None \<Rightarrow>
          (case db_execute_error env of
             Some e \<Rightarrow> (\<lparr>status = ''unhealthy'', database = ''error: '' @ e\<rparr>, st)
           | None \<Rightarrow> (\<lparr>status = ''healthy'', database = ''connected''\<rparr>, st)))"

subsection \<open>add\_content\<close>

definition content_response :: "'i env \<Rightarrow> 'i row \<Rightarrow> ContentResponse" where
  "content_response env result =
     \<lparr>cr_id = id_str env (row_id result),
      cr_user_id = user_id result,
      cr_content = content result,
      cr_source = source result,
      cr_metadata = metadata result,
      cr_created = isoformat env (created result)\<rparr>"

definition add_content ::
  "'i env \<Rightarrow> 'i state \<Rightarrow> AddContentRequest \<Rightarrow> (failure + ContentResponse) \<times> 'i state" where
  "add_content env st request =
     (case get_embedding_service env st of
        Inl e \<Rightarrow> (Inl (database_error e), st)
      | Inr st1 \<Rightarrow>
          (case encode env (acr_content request) of
             Inl e \<Rightarrow> (Inl (database_error e), st1)
           | Inr embedding_v \<Rightarrow>
               (case db_connect_error env of
                  Some e \<Rightarrow> (Inl (database_error e), st1)
                | None \<Rightarrow>
                    (let metadata_json =
                           (if truthy_dict (acr_metadata request)
                            then acr_metadata request else None)
                     in case db_execute_error env of
                          Some e \<Rightarrow> (Inl (database_error e), st1)
                        | None \<Rightarrow>
                            (let result =
                                   \<lparr>row_id = default_id env,
                                    user_id = acr_user_id request,
                                    content = acr_content request,
                                    embedding = embedding_v,
                                    source = acr_source request,
                                    metadata = metadata_json,
                                    created = now env\<rparr>
                             in (Inr (content_response env result),
                                 st1\<lparr>embedding_store :=
                                       embedding_store st1 @ [result]\<rparr>))))))"

subsection \<open>remove\_content\<close>

definition remove_content ::
  "'i env \<Rightarrow> 'i state \<Rightarrow> string \<Rightarrow> (failure + DeleteResponse) \<times> 'i state" where
  "remove_content env st content_id =
     (case db_connect_error env of
        Some e \<Rightarrow> (Inl (database_error e), st)
      | None \<Rightarrow>
          (case db_execute_error env of
             Some e \<Rightarrow> (Inl (database_error e), st)
           | None \<Rightarrow>
               (case id_in env content_id of
                  Inl e \<Rightarrow> (Inl (database_error e), st)
                | Inr i \<Rightarrow>
                    (let rowcount =
                           length (filter (\<lambda>r. row_id r = i) (embedding_store st))
                     in if rowcount = 0
                        then (Inl (HTTPException 404 ''Content not found''), st)
                        else (Inr \<lparr>del_message = ''Content deleted successfully'',
                                   del_id = content_id\<rparr>,
                              st\<lparr>embedding_store :=
                                   filter (\<lambda>r. row_id r \<noteq> i)
                                     (embedding_store st)\<rparr>)))))"

subsection \<open>search\_content\<close>

text \<open>
  The handler assembles a list of SQL conditions, each with its bound parameter; a
  condition is kept here as a value, and \<open>clause_holds\<close> is its meaning on a row.
\<close>

datatype clause =
    UserIdEq string
  | SourceEq string
  | CreatedGe string
  | CreatedLe string
  | DistanceLe vector real

fun clause_error :: "'i env \<Rightarrow> clause \<Rightarrow> string option" where
  "clause_error env (CreatedGe s) =
     (case timestamptz_in env s of Inl e \<Rightarrow> Some e | Inr _ \<Rightarrow> None)"
| "clause_error env (CreatedLe s) =
     (case timestamptz_in env s of Inl e \<Rightarrow> Some e | Inr _ \<Rightarrow> None)"
| "clause_error env _ = None"

fun clause_holds :: "'i env \<Rightarrow> 'i row \<Rightarrow> clause \<Rightarrow> bool" where
  "clause_holds env r (UserIdEq u) = (user_id r = u)"
| "clause_holds env r (SourceEq s) = (source r = Some s)"
| "clause_holds env r (CreatedGe s) =
     (case timestamptz_in env s of Inl _ \<Rightarrow> False | Inr t \<Rightarrow> created r \<ge> t)"
| "clause_holds env r (CreatedLe s) =
     (case timestamptz_in env s of Inl _ \<Rightarrow> False | Inr t \<Rightarrow> created r \<le> t)"
| "clause_holds env r (DistanceLe q t) = (distance_op env (embedding r) q \<le> t)"

fun first_error :: "'i env \<Rightarrow> clause list \<Rightarrow> string option" where
  "first_error env [] = None"
| "first_error env (c # cs) =
     (case clause_error env c of Some e \<Rightarrow> Some e | None \<Rightarrow> first_error env cs)"

text \<open>\<open>LIMIT %s\<close>: a null parameter means no limit, a negative one is an error.\<close>

fun sql_limit :: "int option \<Rightarrow> 'a list \<Rightarrow> string + 'a list" where
  "sql_limit None xs = Inr xs"
| "sql_limit (Some n) xs =
     (if n < 0 then Inl ''LIMIT must not be negative'' else Inr (take (nat n) xs))"

text \<open>
  \<open>SELECT ... FROM embedding_store WHERE ... ORDER BY distance LIMIT ...\<close>: the rows
  that satisfy every condition, in ascending order of distance (rows at the same
  distance in table order), cut at the limit.
\<close>

definition select_rows ::
  "'i env \<Rightarrow> 'i row list \<Rightarrow> vector \<Rightarrow> clause list \<Rightarrow> int option \<Rightarrow> string + 'i row list" where
  "select_rows env table q filters n_limit =
     (case db_execute_error env of
        Some e \<Rightarrow> Inl e
      | None \<Rightarrow>
          (case first_error env filters of
             Some e \<Rightarrow> Inl e
           | None \<Rightarrow>
               sql_limit n_limit
                 (sort_key (\<lambda>r. distance_op env (embedding r) q)
                    (filter (\<lambda>r. list_all (clause_holds env r) filters) table))))"

definition search_result :: "'i env \<Rightarrow> vector \<Rightarrow> 'i row \<Rightarrow> SearchResult" where
  "search_result env q r =
     \<lparr>res_id = id_str env (row_id r),
      res_user_id = user_id r,
      res_content = content r,
      res_source = source r,
      res_metadata = metadata r,
      res_distance = distance_op env (embedding r) q,
      res_created = isoformat env (created r)\<rparr>"

definition build_filters :: "'i env \<Rightarrow> SearchRequest \<Rightarrow> vector \<Rightarrow> clause list" where
  "build_filters env request q =
     (let filters = [];
          filters = (if truthy_str (sr_user_id request)
                     then filters @ [UserIdEq (the (sr_user_id request))] else filters);
          filters = (if truthy_str (sr_source request)
                     then filters @ [SourceEq (the (sr_source request))] else filters);
          filters = (if truthy_str (sr_created_after request)
                     then filters @ [CreatedGe (the (sr_created_after request))]
                     else filters);
          filters = (if truthy_str (sr_created_before request)
                     then filters @ [CreatedLe (the (sr_created_before request))]
                     else filters);
          distance_threshold =
            (case sr_distance_threshold request of
               Some t \<Rightarrow> t
             | None \<Rightarrow> DEFAULT_DISTANCE_THRESHOLD env)
      in filters @ [DistanceLe q distance_threshold])"

definition search_content ::
  "'i env \<Rightarrow> 'i state \<Rightarrow> SearchRequest \<Rightarrow> (failure + SearchResult list) \<times> 'i state" where
  "search_content env st request =
     (case get_embedding_service env st of
        Inl e \<Rightarrow> (Inl (database_error e), st)
      | Inr st1 \<Rightarrow>
          (case encode env (sr_query request) of
             Inl e \<Rightarrow> (Inl (database_error e), st1)
           | Inr q \<Rightarrow>
               (case db_connect_error env of
                  Some e \<Rightarrow> (Inl (database_error e), st1)
                | None \<Rightarrow>
                    (case select_rows env (embedding_store st1) q
                            (build_filters env request q) (sr_limit request) of
                       Inl e \<Rightarrow> (Inl (database_error e), st1)
                     | Inr results \<Rightarrow>
                         (Inr (map (search_result env q) results), st1)))))"

subsection \<open>Request validation (the pydantic field constraints)\<close>

text \<open>
  \<open>limit: Optional[int] = Field(10, ge=1, le=100)\<close>: a body without the key gets
  the default 10, a body with the key gets what it carries, which may be null; the
  bounds are checked on an integer only.
\<close>

fun limit_field :: "int option option \<Rightarrow> int option" where
  "limit_field None = Some 10"
| "limit_field (Some v) = v"

definition valid_AddContentRequest :: "AddContentRequest \<Rightarrow> bool" where
  "valid_AddContentRequest r =
     (length (acr_user_id r) \<le> 9 \<and>
      (case acr_source r of None \<Rightarrow> True | Some s \<Rightarrow> length s \<le> 255))"

definition valid_SearchRequest :: "SearchRequest \<Rightarrow> bool" where
  "valid_SearchRequest r =
     ((case sr_limit r of None \<Rightarrow> True | Some n \<Rightarrow> 1 \<le> n \<and> n \<le> 100) \<and>
      (case sr_user_id r of None \<Rightarrow> True | Some u \<Rightarrow> length u \<le> 9) \<and>
      (case sr_source r of None \<Rightarrow> True | Some s \<Rightarrow> length s \<le> 255) \<and>
      (case sr_distance_threshold r of None \<Rightarrow> True | Some t \<Rightarrow> 0 \<le> t \<and> t \<le> 2))"

text \<open>The routes: the body is validated, then the handler runs.\<close>

definition post_content ::
  "'i env \<Rightarrow> 'i state \<Rightarrow> AddContentRequest \<Rightarrow> (failure + ContentResponse) \<times> 'i state" where
  "post_content env st request =
     (if valid_AddContentRequest request then add_content env st request
      else (Inl RequestValidationError, st))"

definition post_search ::
  "'i env \<Rightarrow> 'i state \<Rightarrow> SearchRequest \<Rightarrow> (failure + SearchResult list) \<times> 'i state" where
  "post_search env st request =
     (if valid_SearchRequest request then search_content env st request
      else (Inl RequestValidationError, st))"

section \<open>A concrete environment and store for evaluation\<close>

definition demo_env :: "string env" where
  "demo_env =
     \<lparr>load_model = None,
      model_encode = (\<lambda>t. if t = [] then Inl ''empty input'' else Inr [real (length t)]),
      db_connect_error = None,
      db_execute_error = None,
      distance_op = (\<lambda>a b. \<bar>sum_list a - sum_list b\<bar> / 10),
      timestamptz_in = (\<lambda>s. if s = [] then Inl ''invalid timestamp'' else Inr (int (length s))),
      id_in = (\<lambda>s. if s = [] then Inl ''invalid id'' else Inr s),
      id_str = (\<lambda>i. i),
      isoformat = (\<lambda>t. if t < 6 then ''2024-01-01'' else ''2024-06-01''),
      default_id = ''d4'',
      now = 9,
      DEFAULT_DISTANCE_THRESHOLD = 7 / 10\<rparr>"

definition alice_row :: "string row" where
  "alice_row =
     \<lparr>row_id = ''a1'', user_id = ''alice'', content = ''cat'', embedding = [3],
      source = Some ''a.txt'', metadata = None, created = 5\<rparr>"

definition bob_row :: "string row" where
  "bob_row =
     \<lparr>row_id = ''b2'', user_id = ''bob'', content = ''markets'', embedding = [7],
      source = None, metadata = Some [(''k'', JBool True)], created = 6\<rparr>"

definition carol_row :: "string row" where
  "carol_row =
     \<lparr>row_id = ''c3'', user_id = ''carol'', content = ''far away'', embedding = [20],
      source = Some ''a.txt'', metadata = None, created = 7\<rparr>"

definition demo_state :: "string state" where
  "demo_state =
     \<lparr>embedding_service = False, embedding_store = [bob_row, carol_row, alice_row]\<rparr>"

definition demo_search :: SearchRequest where
  "demo_search =
     \<lparr>sr_query = ''cats'', sr_limit = Some 10, sr_user_id = None, sr_source = None,
      sr_distance_threshold = None, sr_created_after = None, sr_created_before = None\<rparr>"

definition demo_add :: AddContentRequest where
  "demo_add =
     \<lparr>acr_user_id = ''dave'', acr_content = ''hello'', acr_source = None,
      acr_metadata = Some [(''lang'', JString ''en'')]\<rparr>"

definition alice_result :: SearchResult where
  "alice_result =
     \<lparr>res_id = ''a1'', res_user_id = ''alice'', res_content = ''cat'',
      res_source = Some ''a.txt'', res_metadata = None, res_distance = 1 / 10,
      res_created = ''2024-01-01''\<rparr>"

definition bob_result :: SearchResult where
  "bob_result =
     \<lparr>res_id = ''b2'', res_user_id = ''bob'', res_content = ''markets'',
      res_source = None, res_metadata = Some [(''k'', JBool True)],
      res_distance = 3 / 10, res_created = ''2024-06-01''\<rparr>"

definition loaded_state :: "string state" where
  "loaded_state = demo_state\<lparr>embedding_service := True\<rparr>"

section \<open>The search contract in declarative form\<close>

text \<open>
  The threshold a search works with: the request's own when it carries one, the
  configured default otherwise.
\<close>

definition effective_threshold :: "'i env \<Rightarrow> SearchRequest \<Rightarrow> real" where
  "effective_threshold env request =
     (case sr_distance_threshold request of
        Some t \<Rightarrow> t
      | None \<Rightarrow> DEFAULT_DISTANCE_THRESHOLD env)"

text \<open>
  A row matches the request's filters when it satisfies each filter that is supplied
  with a non-empty value; a filter that is absent or empty asks nothing.
\<close>

definition matches_filters :: "'i env \<Rightarrow> SearchRequest \<Rightarrow> 'i row \<Rightarrow> bool" where
  "matches_filters env request r =
     ((case sr_user_id request of None \<Rightarrow> True | Some u \<Rightarrow> u = [] \<or> user_id r = u) \<and>
      (case sr_source request of None \<Rightarrow> True | Some s \<Rightarrow> s = [] \<or> source r = Some s) \<and>
      (case sr_created_after request of
         None \<Rightarrow> True
       | Some a \<Rightarrow>
           a = [] \<or> (case timestamptz_in env a of Inl _ \<Rightarrow> False | Inr t \<Rightarrow> t \<le> created r)) \<and>
      (case sr_created_before request of
         None \<Rightarrow> True
       | Some b \<Rightarrow>
           b = [] \<or> (case timestamptz_in env b of Inl _ \<Rightarrow> False | Inr t \<Rightarrow> created r \<le> t)))"

section \<open>Further concrete inputs\<close>

definition dave_row :: "string row" where
  "dave_row =
     \<lparr>row_id = ''d4'', user_id = ''dave'', content = ''hello'', embedding = [5],
      source = None, metadata = Some [(''lang'', JString ''en'')], created = 9\<rparr>"

definition owner_search :: SearchRequest where
  "owner_search = demo_search\<lparr>sr_user_id := Some ''bob''\<rparr>"

definition crowded_state :: "string state" where
  "crowded_state = \<lparr>embedding_service = True, embedding_store = replicate 101 alice_row\<rparr>"

definition null_limit_search :: SearchRequest where
  "null_limit_search = demo_search\<lparr>sr_limit := limit_field (Some None)\<rparr>"

definition model_down_env :: "string env" where
  "model_down_env = demo_env\<lparr>load_model := Some ''unavailable''\<rparr>"

definition db_down_env :: "string env" where
  "db_down_env = demo_env\<lparr>db_connect_error := Some ''unavailable''\<rparr>"

text \<open>An id column that takes two-character ids only, as the rows of the store have.\<close>

definition strict_id_env :: "string env" where
  "strict_id_env =
     demo_env\<lparr>id_in := (\<lambda>s. if length s = 2 then Inr s
                           else Inl ''invalid input syntax for the id column'')\<rparr>"

lemmas demo_defs = demo_env_def demo_state_def demo_search_def demo_add_def
  alice_row_def bob_row_def carol_row_def alice_result_def bob_result_def
  loaded_state_def

section \<open>What a handler's run looks like\<close>

text \<open>Obtaining the embedding service never touches the table.\<close>

lemma get_embedding_service_store:
  "get_embedding_service env st = Inr st1 \<Longrightarrow> embedding_store st1 = embedding_store st"
  by (auto simp: get_embedding_service_def split: if_splits option.splits)

text \<open>
  The conditions assembled by the handler hold of a row exactly when the row matches
  the supplied filters and lies within the effective threshold.
\<close>

lemma build_filters_holds:
  "list_all (clause_holds env r) (build_filters env request q) \<longleftrightarrow>
     matches_filters env request r \<and>
     distance_op env (embedding r) q \<le> effective_threshold env request"
  by (cases "sr_user_id request"; cases "sr_source request";
      cases "sr_created_after request"; cases "sr_created_before request")
     (auto simp: build_filters_def matches_filters_def effective_threshold_def Let_def)

lemma build_filters_empty_user_id:
  "build_filters env (request\<lparr>sr_user_id := Some []\<rparr>) q =
   build_filters env (request\<lparr>sr_user_id := None\<rparr>) q"
  by (simp add: build_filters_def)

lemma build_filters_empty_source:
  "build_filters env (request\<lparr>sr_source := Some []\<rparr>) q =
   build_filters env (request\<lparr>sr_source := None\<rparr>) q"
  by (simp add: build_filters_def)

text \<open>A search that returns results has encoded the query and run the query on the table.\<close>

lemma search_content_success:
  assumes "search_content env st request = (Inr results, st')"
  shows "\<exists>q rows. encode env (sr_query request) = Inr q \<and>
           select_rows env (embedding_store st) q (build_filters env request q)
             (sr_limit request) = Inr rows \<and>
           results = map (search_result env q) rows"
  using assms
  by (auto simp: search_content_def dest: get_embedding_service_store
           split: sum.splits option.splits)

lemma select_rows_success:
  assumes "select_rows env table q filters n_limit = Inr rows"
  shows "(n_limit = None \<and>
            rows = sort_key (\<lambda>r. distance_op env (embedding r) q)
                     (filter (\<lambda>r. list_all (clause_holds env r) filters) table)) \<or>
         (\<exists>n. n_limit = Some n \<and> 0 \<le> n \<and>
            rows = take (nat n) (sort_key (\<lambda>r. distance_op env (embedding r) q)
                     (filter (\<lambda>r. list_all (clause_holds env r) filters) table)))"
  using assms
  by (cases n_limit) (auto simp: select_rows_def split: option.splits if_splits)

lemma select_rows_subset:
  assumes "select_rows env table q filters n_limit = Inr rows"
  shows "set rows \<subseteq> {r \<in> set table. list_all (clause_holds env r) filters}"
  using select_rows_success [OF assms] by (auto dest: in_set_takeD)

lemma select_rows_sorted:
  assumes "select_rows env table q filters n_limit = Inr rows"
  shows "sorted (map (\<lambda>r. distance_op env (embedding r) q) rows)"
  using select_rows_success [OF assms]
  by (auto simp: take_map [symmetric] sorted_wrt_take)

lemma select_rows_length:
  assumes "select_rows env table q filters (Some n) = Inr rows"
  shows "length rows \<le> nat n"
  using select_rows_success [OF assms] by auto

lemma select_rows_complete:
  assumes "select_rows env table q filters n_limit = Inr rows"
    and "r \<in> set table" and "list_all (clause_holds env r) filters" and "r \<notin> set rows"
  shows "\<exists>n. n_limit = Some n \<and> length rows = nat n"
proof -
  let ?all = "sort_key (\<lambda>r. distance_op env (embedding r) q)
                (filter (\<lambda>r. list_all (clause_holds env r) filters) table)"
  have mem: "r \<in> set ?all" using assms(2,3) by simp
  from select_rows_success [OF assms(1)] show ?thesis
  proof
    assume "n_limit = None \<and> rows = ?all"
    with mem assms(4) show ?thesis by simp
  next
    assume "\<exists>n. n_limit = Some n \<and> 0 \<le> n \<and> rows = take (nat n) ?all"
    then obtain n where n: "n_limit = Some n" "rows = take (nat n) ?all" by blast
    have "nat n < length ?all"
    proof (rule ccontr)
      assume "\<not> nat n < length ?all"
      then have "take (nat n) ?all = ?all" by simp
      with n mem assms(4) show False by simp
    qed
    with n show ?thesis by simp
  qed
qed

lemma res_distance_search_result:
  "res_distance (search_result env q r) = distance_op env (embedding r) q"
  by (simp add: search_result_def)

lemma res_user_id_search_result: "res_user_id (search_result env q r) = user_id r"
  by (simp add: search_result_def)

text \<open>The two searches evaluated on the concrete store.\<close>

lemma demo_search_run:
  "search_content demo_env demo_state demo_search = (Inr [alice_result, bob_result], loaded_state)"
  by (simp add: search_content_def get_embedding_service_def encode_def select_rows_def
        build_filters_def search_result_def demo_defs)

lemma owner_search_run:
  "search_content demo_env demo_state owner_search = (Inr [bob_result], loaded_state)"
  by (simp add: search_content_def get_embedding_service_def encode_def select_rows_def
        build_filters_def search_result_def owner_search_def demo_defs)

lemma demo_add_run:
  "add_content demo_env demo_state demo_add =
     (Inr \<lparr>cr_id = ''d4'', cr_user_id = ''dave'', cr_content = ''hello'',
           cr_source = None, cr_metadata = Some [(''lang'', JString ''en'')],
           cr_created = ''2024-06-01''\<rparr>,
      loaded_state\<lparr>embedding_store := [bob_row, carol_row, alice_row, dave_row]\<rparr>)"
  by (simp add: add_content_def content_response_def get_embedding_service_def encode_def
        Let_def dave_row_def demo_defs)

section \<open>Embedder failures\<close>

text \<open>
  Claim C1, as the code has it. When the embedder fails on an insert or a search,
  at initialization or on the given text, the handler's catch-all arm raises status
  500 with the detail \<open>Database error:\<close> followed by the embedder's message, the
  very form a storage failure takes; nothing is written to the table, so no fallback
  vector is ever stored or searched with.
\<close>

theorem embedder_failure_is_database_error:
  assumes "get_embedding_service env st = Inl e \<or>
           (\<exists>st1. get_embedding_service env st = Inr st1 \<and> encode env text = Inl e)"
  shows "(acr_content a = text \<longrightarrow>
            fst (add_content env st a) = Inl (HTTPException 500 (''Database error: '' @ e)) \<and>
            embedding_store (snd (add_content env st a)) = embedding_store st) \<and>
         (sr_query s = text \<longrightarrow>
            fst (search_content env st s) = Inl (HTTPException 500 (''Database error: '' @ e)) \<and>
            embedding_store (snd (search_content env st s)) = embedding_store st)"
  using assms
  by (auto simp: add_content_def search_content_def database_error_def
           dest: get_embedding_service_store)

theorem embedder_failure_is_database_error_witness:
  "get_embedding_service model_down_env demo_state = Inl ''unavailable'' \<and>
   fst (add_content model_down_env demo_state demo_add) =
     Inl (HTTPException 500 ''Database error: unavailable'') \<and>
   embedding_store (snd (add_content model_down_env demo_state demo_add)) =
     embedding_store demo_state \<and>
   fst (search_content model_down_env demo_state demo_search) =
     Inl (HTTPException 500 ''Database error: unavailable'') \<and>
   get_embedding_service demo_env demo_state = Inr loaded_state \<and>
   encode demo_env [] = Inl ''empty input'' \<and>
   fst (search_content demo_env demo_state (demo_search\<lparr>sr_query := []\<rparr>)) =
     Inl (HTTPException 500 ''Database error: empty input'')"
proof -
  have a: "get_embedding_service model_down_env demo_state = Inl ''unavailable''"
    by (simp add: get_embedding_service_def model_down_env_def demo_env_def demo_state_def)
  have b: "get_embedding_service demo_env demo_state = Inr loaded_state"
    by (simp add: get_embedding_service_def demo_env_def demo_state_def loaded_state_def)
  have c: "encode demo_env [] = Inl ''empty input''"
    by (simp add: encode_def demo_env_def)
  have h1: "get_embedding_service model_down_env demo_state = Inl ''unavailable'' \<or>
           (\<exists>st1. get_embedding_service model_down_env demo_state = Inr st1 \<and>
                  encode model_down_env (acr_content demo_add) = Inl ''unavailable'')"
    using a by simp
  have h2: "get_embedding_service model_down_env demo_state = Inl ''unavailable'' \<or>
           (\<exists>st1. get_embedding_service model_down_env demo_state = Inr st1 \<and>
                  encode model_down_env (sr_query demo_search) = Inl ''unavailable'')"
    using a by simp
  have h3: "get_embedding_service demo_env demo_state = Inl ''empty input'' \<or>
           (\<exists>st1. get_embedding_service demo_env demo_state = Inr st1 \<and>
                  encode demo_env [] = Inl ''empty input'')"
    using b c by simp
  have q: "sr_query (demo_search\<lparr>sr_query := []\<rparr>) = []" by simp
  from embedder_failure_is_database_error [OF h1, of demo_add demo_search]
       embedder_failure_is_database_error [OF h2, of demo_add demo_search]
       embedder_failure_is_database_error [OF h3, of demo_add "demo_search\<lparr>sr_query := []\<rparr>"]
       a b c q
  show ?thesis by simp
qed

text \<open>
  The classification the claim asks for is not there: an embedder that cannot be
  loaded and a database that cannot be reached, failing with the same message, give
  the caller the same error on insert and on search.
\<close>

theorem embedder_failure_counterexample:
  "get_embedding_service model_down_env demo_state = Inl ''unavailable'' \<and>
   get_embedding_service db_down_env demo_state = Inr loaded_state \<and>
   encode db_down_env (acr_content demo_add) = Inr [5] \<and>
   encode db_down_env (sr_query demo_search) = Inr [4] \<and>
   fst (add_content model_down_env demo_state demo_add) =
     fst (add_content db_down_env demo_state demo_add) \<and>
   fst (search_content model_down_env demo_state demo_search) =
     fst (search_content db_down_env demo_state demo_search)"
  by (simp add: add_content_def search_content_def get_embedding_service_def encode_def
        model_down_env_def db_down_env_def Let_def demo_defs)

section \<open>Health\<close>

text \<open>
  Claim C2, as the code has it. The health result reports the database only. When
  connecting and running \<open>SELECT 1\<close> both succeed, status is \<open>healthy\<close> and
  database is \<open>connected\<close>; when connecting fails, or connecting succeeds and the
  statement fails, status is \<open>unhealthy\<close> and database is \<open>error:\<close> followed by
  the failure's message. The state is left as it was, and neither the state of the
  embedding service nor the model behind it has any influence on the result.
\<close>

theorem health_check_reports_store_only:
  "fst (health_check (env\<lparr>load_model := l, model_encode := f\<rparr>)
          (st\<lparr>embedding_service := b\<rparr>)) = fst (health_check env st) \<and>
   snd (health_check env st) = st \<and>
   ((db_connect_error env = None \<and> db_execute_error env = None \<and>
     fst (health_check env st) = \<lparr>status = ''healthy'', database = ''connected''\<rparr>) \<or>
    (\<exists>e. (db_connect_error env = Some e \<or>
           (db_connect_error env = None \<and> db_execute_error env = Some e)) \<and>
         fst (health_check env st) =
           \<lparr>status = ''unhealthy'', database = ''error: '' @ e\<rparr>)) \<and>
   (status (fst (health_check env st)) = ''healthy'' \<longleftrightarrow>
      db_connect_error env = None \<and> db_execute_error env = None) \<and>
   (database (fst (health_check env st)) = ''connected'' \<longleftrightarrow>
      status (fst (health_check env st)) = ''healthy'')"
proof -
  have indep:
    "fst (health_check (env\<lparr>load_model := l, model_encode := f\<rparr>)
            (st\<lparr>embedding_service := b\<rparr>)) = fst (health_check env st)"
    by (simp add: health_check_def split: option.splits)
  have unchanged: "snd (health_check env st) = st"
    by (simp add: health_check_def split: option.splits)
  have outputs:
    "(db_connect_error env = None \<and> db_execute_error env = None \<and>
      fst (health_check env st) = \<lparr>status = ''healthy'', database = ''connected''\<rparr>) \<or>
     (\<exists>e. (db_connect_error env = Some e \<or>
            (db_connect_error env = None \<and> db_execute_error env = Some e)) \<and>
          fst (health_check env st) =
            \<lparr>status = ''unhealthy'', database = ''error: '' @ e\<rparr>)"
    by (cases "db_connect_error env"; cases "db_execute_error env")
       (simp_all add: health_check_def)
  have healthy:
    "status (fst (health_check env st)) = ''healthy'' \<longleftrightarrow>
       db_connect_error env = None \<and> db_execute_error env = None"
    by (simp add: health_check_def split: option.splits)
  have connected:
    "database (fst (health_check env st)) = ''connected'' \<longleftrightarrow>
       status (fst (health_check env st)) = ''healthy''"
    by (simp add: health_check_def split: option.splits)
  from indep unchanged outputs healthy connected show ?thesis by blast
qed

text \<open>
  At an unreachable database the result is unhealthy and carries the driver's
  message.
\<close>

theorem health_check_reports_store_only_witness:
  "db_connect_error db_down_env = Some ''unavailable'' \<and>
   fst (health_check db_down_env demo_state) =
     \<lparr>status = ''unhealthy'', database = ''error: unavailable''\<rparr> \<and>
   snd (health_check db_down_env demo_state) = demo_state \<and>
   db_connect_error demo_env = None \<and> db_execute_error demo_env = None \<and>
   fst (health_check demo_env demo_state) =
     \<lparr>status = ''healthy'', database = ''connected''\<rparr>"
proof -
  have d: "db_connect_error db_down_env = Some ''unavailable''"
    by (simp add: db_down_env_def demo_env_def)
  have c: "db_connect_error demo_env = None" and x: "db_execute_error demo_env = None"
    by (simp_all add: demo_env_def)
  from health_check_reports_store_only [where env = db_down_env and st = demo_state] d
  have down: "fst (health_check db_down_env demo_state) =
                \<lparr>status = ''unhealthy'', database = ''error: unavailable''\<rparr> \<and>
              snd (health_check db_down_env demo_state) = demo_state"
    by auto
  from health_check_reports_store_only [where env = demo_env and st = demo_state] c x
  have up: "fst (health_check demo_env demo_state) =
              \<lparr>status = ''healthy'', database = ''connected''\<rparr>"
    by auto
  from d c x down up show ?thesis by simp
qed

text \<open>
  Embedder readiness is not reported: with the model impossible to load the health
  result is the same as with the service loaded, healthy when the database answers
  and unhealthy when it does not.
\<close>

theorem health_check_counterexample:
  "get_embedding_service model_down_env demo_state = Inl ''unavailable'' \<and>
   get_embedding_service demo_env loaded_state = Inr loaded_state \<and>
   fst (health_check model_down_env demo_state) = fst (health_check demo_env loaded_state) \<and>
   fst (health_check model_down_env demo_state) =
     \<lparr>status = ''healthy'', database = ''connected''\<rparr> \<and>
   get_embedding_service (db_down_env\<lparr>load_model := Some ''unavailable''\<rparr>) demo_state =
     Inl ''unavailable'' \<and>
   get_embedding_service db_down_env loaded_state = Inr loaded_state \<and>
   fst (health_check (db_down_env\<lparr>load_model := Some ''unavailable''\<rparr>) demo_state) =
     fst (health_check db_down_env loaded_state) \<and>
   fst (health_check db_down_env loaded_state) =
     \<lparr>status = ''unhealthy'', database = ''error: unavailable''\<rparr>"
  by (simp add: health_check_def get_embedding_service_def model_down_env_def
        db_down_env_def demo_env_def demo_state_def loaded_state_def)

section \<open>Insert\<close>

text \<open>A supplied non-empty metadata document is stored and returned as it is.\<close>

lemma add_content_metadata_nonempty:
  assumes "add_content env st request = (Inr response, st')"
    and "acr_metadata request = Some d" and "d \<noteq> []"
  shows "cr_metadata response = Some d \<and> metadata (last (embedding_store st')) = Some d"
  using assms
  by (auto simp: add_content_def content_response_def Let_def
           split: sum.splits option.splits)

text \<open>
  Claim C3 at the empty document. The handler tests the document for truthiness, so
  an insert carrying the empty document \<open>{}\<close> stores a null and returns a null:
  the response's metadata is \<open>None\<close>, not the empty document, and so is the new
  row's.
\<close>

theorem add_content_empty_metadata:
  "map_sum id cr_metadata
     (fst (add_content demo_env demo_state (demo_add\<lparr>acr_metadata := Some []\<rparr>))) = Inr None \<and>
   map metadata
     (embedding_store (snd (add_content demo_env demo_state (demo_add\<lparr>acr_metadata := Some []\<rparr>))))
     = [Some [(''k'', JBool True)], None, None, None]"
  by (simp add: add_content_def content_response_def get_embedding_service_def encode_def
        Let_def demo_defs)

text \<open>
  Claim C9, as the code has it. A successful insert appends exactly one row, whose
  vector is the encoding of the request's text, whose id and creation time are the
  store's, and whose owner, text and source are the request's; the response carries
  that row's id, owner, text, source, metadata and creation time. The vector is
  not part of the response.
\<close>

theorem add_content_returns_persisted_row:
  assumes "add_content env st request = (Inr response, st')"
  shows "\<exists>r v. embedding_store st' = embedding_store st @ [r] \<and>
           encode env (acr_content request) = Inr v \<and>
           embedding r = v \<and>
           row_id r = default_id env \<and>
           created r = now env \<and>
           user_id r = acr_user_id request \<and>
           content r = acr_content request \<and>
           source r = acr_source request \<and>
           response =
             \<lparr>cr_id = id_str env (row_id r), cr_user_id = user_id r,
              cr_content = content r, cr_source = source r,
              cr_metadata = metadata r, cr_created = isoformat env (created r)\<rparr>"
  using assms
  by (auto simp: add_content_def content_response_def Let_def
           dest: get_embedding_service_store split: sum.splits option.splits)

theorem add_content_returns_persisted_row_witness:
  "add_content demo_env demo_state demo_add =
     (Inr \<lparr>cr_id = ''d4'', cr_user_id = ''dave'', cr_content = ''hello'',
           cr_source = None, cr_metadata = Some [(''lang'', JString ''en'')],
           cr_created = ''2024-06-01''\<rparr>,
      loaded_state\<lparr>embedding_store := [bob_row, carol_row, alice_row, dave_row]\<rparr>) \<and>
   (\<exists>r. embedding_store (loaded_state\<lparr>embedding_store := [bob_row, carol_row, alice_row, dave_row]\<rparr>)
          = embedding_store demo_state @ [r] \<and>
        row_id r = default_id demo_env \<and> created r = now demo_env)"
  using add_content_returns_persisted_row [OF demo_add_run] demo_add_run by blast

text \<open>
  Two models that encode the same text differently make the same insert persist
  different vectors and answer with the same response: the response does not hold
  the record's vector.
\<close>

theorem add_content_response_counterexample:
  "fst (add_content demo_env demo_state demo_add) =
     fst (add_content (demo_env\<lparr>model_encode := (\<lambda>t. Inr [0, 1])\<rparr>) demo_state demo_add) \<and>
   map embedding (embedding_store (snd (add_content demo_env demo_state demo_add))) \<noteq>
     map embedding (embedding_store
       (snd (add_content (demo_env\<lparr>model_encode := (\<lambda>t. Inr [0, 1])\<rparr>) demo_state demo_add)))"
  by (simp add: add_content_def content_response_def get_embedding_service_def encode_def
        Let_def demo_defs)

section \<open>Delete\<close>

text \<open>
  Claim C4, as the code has it. With the database reachable and the request's id
  text accepted by the id column, deleting an id that no row has raises status 404
  with the detail \<open>Content not found\<close> and leaves the state as it was; in
  particular a delete that follows a successful delete of the same id does so. That
  error is never the catch-all storage error.
\<close>

theorem remove_content_not_found:
  assumes "db_connect_error env = None" and "db_execute_error env = None"
    and "id_in env content_id = Inr i"
  shows "(i \<notin> row_id ` set (embedding_store st) \<longrightarrow>
            remove_content env st content_id =
              (Inl (HTTPException 404 ''Content not found''), st)) \<and>
         (\<forall>ok st'. remove_content env st content_id = (Inr ok, st') \<longrightarrow>
            remove_content env st' content_id =
              (Inl (HTTPException 404 ''Content not found''), st')) \<and>
         (\<forall>e. HTTPException 404 ''Content not found'' \<noteq> database_error e)"
proof (intro conjI allI impI)
  assume "i \<notin> row_id ` set (embedding_store st)"
  then have "filter (\<lambda>r. row_id r = i) (embedding_store st) = []"
    by (auto simp: filter_empty_conv)
  then show "remove_content env st content_id =
               (Inl (HTTPException 404 ''Content not found''), st)"
    using assms by (simp add: remove_content_def)
next
  fix ok st'
  assume "remove_content env st content_id = (Inr ok, st')"
  then have "st' = st\<lparr>embedding_store := filter (\<lambda>r. row_id r \<noteq> i) (embedding_store st)\<rparr>"
    using assms by (simp add: remove_content_def Let_def split: if_splits)
  then have "filter (\<lambda>r. row_id r = i) (embedding_store st') = []"
    by (simp add: filter_empty_conv)
  then show "remove_content env st' content_id =
               (Inl (HTTPException 404 ''Content not found''), st')"
    using assms by (simp add: remove_content_def)
next
  fix e
  show "HTTPException 404 ''Content not found'' \<noteq> database_error e"
    by (simp add: database_error_def)
qed

theorem remove_content_not_found_witness:
  "db_connect_error demo_env = None \<and> db_execute_error demo_env = None \<and>
   id_in demo_env ''zz'' = Inr ''zz'' \<and>
   ''zz'' \<notin> row_id ` set (embedding_store demo_state) \<and>
   remove_content demo_env demo_state ''zz'' =
     (Inl (HTTPException 404 ''Content not found''), demo_state) \<and>
   id_in demo_env ''b2'' = Inr ''b2'' \<and>
   remove_content demo_env demo_state ''b2'' =
     (Inr \<lparr>del_message = ''Content deleted successfully'', del_id = ''b2''\<rparr>,
      demo_state\<lparr>embedding_store := [carol_row, alice_row]\<rparr>) \<and>
   remove_content demo_env (demo_state\<lparr>embedding_store := [carol_row, alice_row]\<rparr>) ''b2'' =
     (Inl (HTTPException 404 ''Content not found''),
      demo_state\<lparr>embedding_store := [carol_row, alice_row]\<rparr>)"
proof -
  have c: "db_connect_error demo_env = None" and x: "db_execute_error demo_env = None"
    by (simp_all add: demo_env_def)
  have z: "id_in demo_env ''zz'' = Inr ''zz''" and b: "id_in demo_env ''b2'' = Inr ''b2''"
    by (simp_all add: demo_env_def)
  have m: "''zz'' \<notin> row_id ` set (embedding_store demo_state)"
    by (simp add: demo_defs)
  have d: "remove_content demo_env demo_state ''b2'' =
     (Inr \<lparr>del_message = ''Content deleted successfully'', del_id = ''b2''\<rparr>,
      demo_state\<lparr>embedding_store := [carol_row, alice_row]\<rparr>)"
    by (simp add: remove_content_def demo_defs)
  from remove_content_not_found [OF c x z, of demo_state]
       remove_content_not_found [OF c x b, of demo_state] c x z b m d
  show ?thesis by blast
qed

text \<open>
  Without the condition on the id text the claim fails. Where the id column accepts
  only ids of its own form, a delete whose id text it rejects finds the database
  reachable and no row with that id, and yet ends in the catch-all arm: status 500
  with the detail \<open>Database error:\<close> and the cast's message, not 404.
\<close>

theorem remove_content_counterexample:
  "db_connect_error strict_id_env = None \<and>
   db_execute_error strict_id_env = None \<and>
   ''not-an-id'' \<notin> id_str strict_id_env ` row_id ` set (embedding_store demo_state) \<and>
   remove_content strict_id_env demo_state ''not-an-id'' =
     (Inl (HTTPException 500 ''Database error: invalid input syntax for the id column''),
      demo_state) \<and>
   HTTPException 500 ''Database error: invalid input syntax for the id column'' \<noteq>
     HTTPException 404 ''Content not found''"
  by (simp add: remove_content_def database_error_def strict_id_env_def demo_defs)

section \<open>Search\<close>

text \<open>
  Claim C5. Every result of a search has a distance no greater than the effective
  threshold, and is a stored row with its computed distance to the encoded query;
  so a stored row whose distance exceeds the effective threshold does not appear.
  The effective threshold is the request's when supplied, the configured default
  otherwise.
\<close>

theorem search_threshold_exclusion:
  assumes "search_content env st request = (Inr results, st')"
  shows "\<exists>q. encode env (sr_query request) = Inr q \<and>
           (\<forall>res \<in> set results.
              res_distance res \<le> effective_threshold env request \<and>
              (\<exists>r \<in> set (embedding_store st). res = search_result env q r)) \<and>
           (\<forall>r \<in> set (embedding_store st).
              effective_threshold env request < distance_op env (embedding r) q \<longrightarrow>
              search_result env q r \<notin> set results)"
proof -
  from search_content_success [OF assms] obtain q rows where
    q: "encode env (sr_query request) = Inr q" and
    sel: "select_rows env (embedding_store st) q (build_filters env request q)
            (sr_limit request) = Inr rows" and
    res: "results = map (search_result env q) rows" by blast
  have rows: "\<forall>r \<in> set rows. r \<in> set (embedding_store st) \<and>
                distance_op env (embedding r) q \<le> effective_threshold env request"
    using select_rows_subset [OF sel] by (auto simp: build_filters_holds)
  have a: "\<forall>res \<in> set results.
              res_distance res \<le> effective_threshold env request \<and>
              (\<exists>r \<in> set (embedding_store st). res = search_result env q r)"
    using rows res by (auto simp: res_distance_search_result)
  have b: "\<forall>r \<in> set (embedding_store st).
              effective_threshold env request < distance_op env (embedding r) q \<longrightarrow>
              search_result env q r \<notin> set results"
  proof (intro ballI impI notI)
    fix r assume "effective_threshold env request < distance_op env (embedding r) q"
      and "search_result env q r \<in> set results"
    with a have "res_distance (search_result env q r) \<le> effective_threshold env request"
      by blast
    with \<open>effective_threshold env request < distance_op env (embedding r) q\<close>
    show False by (simp add: res_distance_search_result)
  qed
  from q a b show ?thesis by blast
qed

theorem search_threshold_exclusion_witness:
  "search_content demo_env demo_state demo_search = (Inr [alice_result, bob_result], loaded_state) \<and>
   (\<exists>q. encode demo_env (sr_query demo_search) = Inr q \<and>
      (\<forall>res \<in> set [alice_result, bob_result].
         res_distance res \<le> effective_threshold demo_env demo_search \<and>
         (\<exists>r \<in> set (embedding_store demo_state). res = search_result demo_env q r)) \<and>
      (\<forall>r \<in> set (embedding_store demo_state).
         effective_threshold demo_env demo_search < distance_op demo_env (embedding r) q \<longrightarrow>
         search_result demo_env q r \<notin> set [alice_result, bob_result]))"
  using search_threshold_exclusion [OF demo_search_run] demo_search_run by blast

text \<open>
  Claim C6. The results of a search are in ascending order of distance: each
  result's distance is at most the next one's.
\<close>

theorem search_results_sorted:
  assumes "search_content env st request = (Inr results, st')"
  shows "sorted (map res_distance results) \<and>
         (\<forall>i. Suc i < length results \<longrightarrow>
            res_distance (results ! i) \<le> res_distance (results ! Suc i))"
proof -
  from search_content_success [OF assms] obtain q rows where
    sel: "select_rows env (embedding_store st) q (build_filters env request q)
            (sr_limit request) = Inr rows" and
    res: "results = map (search_result env q) rows" by blast
  have "map res_distance results = map (\<lambda>r. distance_op env (embedding r) q) rows"
    using res by (simp add: res_distance_search_result)
  with select_rows_sorted [OF sel] have s: "sorted (map res_distance results)" by simp
  have "\<forall>i. Suc i < length results \<longrightarrow>
            res_distance (results ! i) \<le> res_distance (results ! Suc i)"
  proof (intro allI impI)
    fix i assume i: "Suc i < length results"
    then have "map res_distance results ! i \<le> map res_distance results ! Suc i"
      using s by (intro sorted_nth_mono) auto
    with i show "res_distance (results ! i) \<le> res_distance (results ! Suc i)" by simp
  qed
  with s show ?thesis by blast
qed

theorem search_results_sorted_witness:
  "search_content demo_env demo_state demo_search = (Inr [alice_result, bob_result], loaded_state) \<and>
   sorted (map res_distance [alice_result, bob_result]) \<and>
   res_distance alice_result \<le> res_distance bob_result"
  using search_results_sorted [OF demo_search_run] demo_search_run by auto

text \<open>A search with an integer limit returns at most that many results.\<close>

lemma search_limit_bound:
  assumes "search_content env st request = (Inr results, st')"
    and "sr_limit request = Some n"
  shows "length results \<le> nat n"
proof -
  from search_content_success [OF assms(1)] obtain q rows where
    sel: "select_rows env (embedding_store st) q (build_filters env request q)
            (sr_limit request) = Inr rows" and
    res: "results = map (search_result env q) rows" by blast
  from sel assms(2) have "length rows \<le> nat n" by (simp add: select_rows_length)
  with res show ?thesis by simp
qed

lemma post_search_limit_bound:
  assumes "post_search env st request = (Inr results, st')"
    and "sr_limit request = Some n"
  shows "length results \<le> nat n \<and> 1 \<le> n \<and> n \<le> 100"
proof -
  from assms(1) have v: "valid_SearchRequest request"
    and s: "search_content env st request = (Inr results, st')"
    by (auto simp: post_search_def split: if_splits)
  from v assms(2) have "1 \<le> n \<and> n \<le> 100" by (simp add: valid_SearchRequest_def)
  with search_limit_bound [OF s assms(2)] show ?thesis by simp
qed

text \<open>
  Claim C7 at a null limit. The field is declared optional, so a body carrying
  \<open>"limit": null\<close> passes validation; the null reaches \<open>LIMIT\<close>, which then
  bounds nothing. On a table of 101 rows within the threshold, such a search
  returns 101 results, more than the default 10 and more than the maximum 100.
\<close>

theorem search_null_limit_unbounded:
  "valid_SearchRequest null_limit_search \<and>
   map_sum id length (fst (post_search demo_env crowded_state null_limit_search)) = Inr 101"
  by (simp add: post_search_def valid_SearchRequest_def search_content_def
        get_embedding_service_def encode_def select_rows_def build_filters_def
        null_limit_search_def crowded_state_def demo_env_def demo_search_def alice_row_def)

text \<open>
  Claim C8. With a non-empty owner filter every result has that owner. More, the
  returned rows are stored rows that match all the supplied filters together, and a
  stored row that matches them within the threshold is left out only when the limit
  is reached: a filter that is not supplied excludes nothing.
\<close>

theorem search_owner_filter:
  assumes "search_content env st request = (Inr results, st')"
    and "sr_user_id request = Some u" and "u \<noteq> []"
  shows "\<exists>q rows. encode env (sr_query request) = Inr q \<and>
           results = map (search_result env q) rows \<and>
           (\<forall>res \<in> set results. res_user_id res = u) \<and>
           (\<forall>r \<in> set rows. r \<in> set (embedding_store st) \<and> user_id r = u \<and>
              matches_filters env request r) \<and>
           (\<forall>r \<in> set (embedding_store st).
              matches_filters env request r \<and>
              distance_op env (embedding r) q \<le> effective_threshold env request \<and>
              r \<notin> set rows \<longrightarrow>
              (\<exists>n. sr_limit request = Some n \<and> length rows = nat n))"
proof -
  from search_content_success [OF assms(1)] obtain q rows where
    q: "encode env (sr_query request) = Inr q" and
    sel: "select_rows env (embedding_store st) q (build_filters env request q)
            (sr_limit request) = Inr rows" and
    res: "results = map (search_result env q) rows" by blast
  have rows: "\<forall>r \<in> set rows. r \<in> set (embedding_store st) \<and> matches_filters env request r"
    using select_rows_subset [OF sel] by (auto simp: build_filters_holds)
  have own: "\<forall>r \<in> set rows. user_id r = u"
    using rows assms(2,3) by (auto simp: matches_filters_def)
  have a: "\<forall>res \<in> set results. res_user_id res = u"
    using own res by (auto simp: res_user_id_search_result)
  have c: "\<forall>r \<in> set (embedding_store st).
              matches_filters env request r \<and>
              distance_op env (embedding r) q \<le> effective_threshold env request \<and>
              r \<notin> set rows \<longrightarrow>
              (\<exists>n. sr_limit request = Some n \<and> length rows = nat n)"
    using select_rows_complete [OF sel] by (auto simp: build_filters_holds)
  from q res a rows own c show ?thesis by blast
qed

theorem search_owner_filter_witness:
  "search_content demo_env demo_state owner_search = (Inr [bob_result], loaded_state) \<and>
   sr_user_id owner_search = Some ''bob'' \<and> ''bob'' \<noteq> [] \<and>
   res_user_id bob_result = ''bob''"
proof -
  have u: "sr_user_id owner_search = Some ''bob''" by (simp add: owner_search_def)
  have n: "''bob'' \<noteq> []" by simp
  from search_owner_filter [OF owner_search_run u n]
  have "\<forall>res \<in> set [bob_result]. res_user_id res = ''bob''" by blast
  with owner_search_run u n show ?thesis by simp
qed

text \<open>
  Claim C10. A search whose owner filter, or source filter, is the empty string
  behaves exactly as the search with that filter omitted.
\<close>

theorem empty_filter_is_omitted:
  "search_content env st (request\<lparr>sr_user_id := Some []\<rparr>) =
     search_content env st (request\<lparr>sr_user_id := None\<rparr>) \<and>
   search_content env st (request\<lparr>sr_source := Some []\<rparr>) =
     search_content env st (request\<lparr>sr_source := None\<rparr>)"
  unfolding search_content_def
  by (simp add: build_filters_empty_user_id build_filters_empty_source
           split: sum.splits option.splits)

end
